theory Spec2Isabelle
  imports Main "HOL-Library.Sublist" "HOL-Library.Log_Nat"
begin

section \<open>Data model\<close>

text \<open>
  The traffic checker keeps one JSON record on disk (\<open>Stats\<close>) and reads its settings
  from \<open>config.json\<close> (\<open>Config\<close>). Go strings are byte sequences, modelled as
  \<open>string\<close>; \<open>big.Int\<close> is \<open>int\<close>.
\<close>

record Config =
  TimeZone :: string
  Interface :: string
  StatsFile :: string
  WebhookURL :: string
  BotName :: string

record Stats =
  Month :: string
  RX :: int
  TX :: int

text \<open>The Go \<open>error\<close> values the program can meet, by origin.\<close>

datatype error =
    ErrReadFile     \<comment> \<open>\<open>os.ReadFile\<close> or \<open>json.Unmarshal\<close> failed\<close>
  | ErrWriteFile    \<comment> \<open>\<open>os.WriteFile\<close> failed\<close>
  | ErrSyntax       \<comment> \<open>\<open>strconv.ErrSyntax\<close>\<close>
  | ErrRange        \<comment> \<open>\<open>strconv.ErrRange\<close>\<close>
  | ErrNotFound     \<comment> \<open>the interface is not listed\<close>

section \<open>String functions of the Go library used by the program\<close>

subsection \<open>\<open>strings.Split(s, "\n")\<close>\<close>

definition newline :: char where
  "newline = CHR 0x0A"

fun Split :: "string \<Rightarrow> string list" where
  "Split [] = [[]]"
| "Split (c # cs) =
     (if c = newline then [] # Split cs
      else (let r = Split cs in (c # hd r) # tl r))"

subsection \<open>\<open>strings.Contains\<close>\<close>

fun Contains :: "string \<Rightarrow> string \<Rightarrow> bool" where
  "Contains [] substr = (substr = [])"
| "Contains (c # cs) substr = (prefix substr (c # cs) \<or> Contains cs substr)"

subsection \<open>\<open>strings.Fields\<close>\<close>

text \<open>
  \<open>strings.Fields\<close> splits around runs of white space as \<open>unicode.IsSpace\<close> defines it.
  On the bytes of the string these are the six ASCII characters and the UTF-8 encodings
  of U+0085, U+00A0, U+1680, U+2000 to U+200A, U+2028, U+2029, U+202F, U+205F and U+3000.
\<close>

definition unicode_spaces :: "string list" where
  "unicode_spaces =
    [[CHR 0x09], [CHR 0x0A], [CHR 0x0B], [CHR 0x0C], [CHR 0x0D], [CHR 0x20],
     [CHR 0xC2, CHR 0x85], [CHR 0xC2, CHR 0xA0],
     [CHR 0xE1, CHR 0x9A, CHR 0x80],
     [CHR 0xE2, CHR 0x80, CHR 0x80], [CHR 0xE2, CHR 0x80, CHR 0x81],
     [CHR 0xE2, CHR 0x80, CHR 0x82], [CHR 0xE2, CHR 0x80, CHR 0x83],
     [CHR 0xE2, CHR 0x80, CHR 0x84], [CHR 0xE2, CHR 0x80, CHR 0x85],
     [CHR 0xE2, CHR 0x80, CHR 0x86], [CHR 0xE2, CHR 0x80, CHR 0x87],
     [CHR 0xE2, CHR 0x80, CHR 0x88], [CHR 0xE2, CHR 0x80, CHR 0x89],
     [CHR 0xE2, CHR 0x80, CHR 0x8A],
     [CHR 0xE2, CHR 0x80, CHR 0xA8], [CHR 0xE2, CHR 0x80, CHR 0xA9],
     [CHR 0xE2, CHR 0x80, CHR 0xAF],
     [CHR 0xE2, CHR 0x81, CHR 0x9F],
     [CHR 0xE3, CHR 0x80, CHR 0x80]]"

text \<open>The number of bytes of the white-space rune at the head of the string, 0 if none.\<close>

definition space_width :: "string \<Rightarrow> nat" where
  "space_width s =
     (case find (\<lambda>p. prefix p s) unicode_spaces of None \<Rightarrow> 0 | Some p \<Rightarrow> length p)"

text \<open>
  \<open>fields_from skip cur s\<close>: \<open>skip\<close> bytes of a white-space rune are still to be passed
  over, \<open>cur\<close> is the field being read (reversed).
\<close>

fun fields_from :: "nat \<Rightarrow> string \<Rightarrow> string \<Rightarrow> string list" where
  "fields_from skip cur [] = (if cur = [] then [] else [rev cur])"
| "fields_from (Suc skip) cur (c # cs) = fields_from skip cur cs"
| "fields_from 0 cur (c # cs) =
     (let w = space_width (c # cs) in
      if w = 0 then fields_from 0 (c # cur) cs
      else (if cur = [] then [] else [rev cur]) @ fields_from (w - 1) [] cs)"

definition Fields :: "string \<Rightarrow> string list" where
  "Fields s = fields_from 0 [] s"

subsection \<open>\<open>strconv.ParseInt(s, 10, 64)\<close>\<close>

text \<open>Unsigned 64-bit values are held in \<open>int\<close>, the bound written out.\<close>

definition digit_of :: "char \<Rightarrow> int option" where
  "digit_of c =
     (if of_char (CHR ''0'') \<le> (of_char c :: int) \<and> (of_char c :: int) \<le> of_char (CHR ''9'')
      then Some (of_char c - of_char (CHR ''0'')) else None)"

text \<open>The digit loop of \<open>ParseUint\<close> in base 10: a byte that is no digit is a syntax error,
  a value beyond \<open>2^64 - 1\<close> a range error, whichever comes first from the left.\<close>

fun parse_digits :: "int \<Rightarrow> string \<Rightarrow> error + int" where
  "parse_digits n [] = Inr n"
| "parse_digits n (c # cs) =
     (case digit_of c of
        None \<Rightarrow> Inl ErrSyntax
      | Some d \<Rightarrow> if n * 10 + d \<ge> 2 ^ 64 then Inl ErrRange else parse_digits (n * 10 + d) cs)"

definition ParseUint :: "string \<Rightarrow> error + int" where
  "ParseUint s = (if s = [] then Inl ErrSyntax else parse_digits 0 s)"

definition ParseInt :: "string \<Rightarrow> error + int" where
  "ParseInt s =
     (if s = [] then Inl ErrSyntax
      else
        let neg = (hd s = CHR ''-'');
            s' = (if hd s = CHR ''+'' \<or> hd s = CHR ''-'' then tl s else s)
        in case ParseUint s' of
             Inl ErrSyntax \<Rightarrow> Inl ErrSyntax
           | r \<Rightarrow>
               let un = (case r of Inr n \<Rightarrow> n | Inl _ \<Rightarrow> 2 ^ 64 - 1) in
               if \<not> neg \<and> un \<ge> 2 ^ 63 then Inl ErrRange
               else if neg \<and> un > 2 ^ 63 then Inl ErrRange
               else Inr (if neg then - un else un))"

section \<open>The counter source: \<open>readNetworkBytes\<close>\<close>

text \<open>The loop over the lines of \<open>/proc/net/dev\<close>.\<close>

fun scan_lines :: "string \<Rightarrow> string list \<Rightarrow> error + (int \<times> int)" where
  "scan_lines interfaceName [] = Inl ErrNotFound"
| "scan_lines interfaceName (line # lines) =
     (if Contains line interfaceName then
        (let parts = Fields line in
         if length parts < 10 then scan_lines interfaceName lines
         else
           case ParseInt (parts ! 1) of
             Inl err \<Rightarrow> Inl err
           | Inr rxBytes \<Rightarrow>
               (case ParseInt (parts ! 9) of
                  Inl err \<Rightarrow> Inl err
                | Inr txBytes \<Rightarrow> Inr (rxBytes, txBytes)))
      else scan_lines interfaceName lines)"

text \<open>The first argument is the content of \<open>/proc/net/dev\<close>, \<open>None\<close> when it cannot be read.\<close>

definition readNetworkBytes :: "string option \<Rightarrow> string \<Rightarrow> error + (int \<times> int)" where
  "readNetworkBytes data interfaceName =
     (case data of
        None \<Rightarrow> Inl ErrReadFile
      | Some d \<Rightarrow> scan_lines interfaceName (Split d))"

section \<open>The accounting period: \<open>time.Now().Format("2006-01")\<close>\<close>

text \<open>The decimal digits of a number that is not negative.\<close>

function decimal :: "int \<Rightarrow> string" where
  "decimal n =
     (if n < 10 then [char_of (of_char (CHR ''0'') + n)]
      else decimal (n div 10) @ [char_of (of_char (CHR ''0'') + n mod 10)])"
  by pat_completeness auto
termination
  by (relation "measure nat") auto

declare decimal.simps [simp del]

text \<open>\<open>appendInt\<close> of package \<open>time\<close>: a minus sign for a negative number, then the digits,
  padded with zeros to the width.\<close>

definition appendInt :: "int \<Rightarrow> nat \<Rightarrow> string" where
  "appendInt x width =
     (let ds = decimal \<bar>x\<bar> in
      (if x < 0 then ''-'' else []) @ replicate (width - length ds) (CHR ''0'') @ ds)"

text \<open>What the wall clock gives: the year and the month of the year (1 to 12).\<close>

record Time =
  year :: int
  month :: int

definition Format_2006_01 :: "Time \<Rightarrow> string" where
  "Format_2006_01 t = appendInt (year t) 4 @ ''-'' @ appendInt (month t) 2"

section \<open>The byte formatter: \<open>formatBytes\<close>\<close>

text \<open>
  \<open>formatBytes\<close> works on a \<open>big.Float\<close> made of the byte count. \<open>SetInt\<close> gives it at least
  as many mantissa bits as the count has, and a quotient by 1024 only lowers the binary
  exponent, so every value of \<open>fSize\<close> is the exact quotient: a rational number.
  Rounding happens in \<open>Float64()\<close> (to the nearest \<open>float64\<close>, ties to even) and in
  \<open>Sprintf("%.2f")\<close> (to two decimals of the exact value of the \<open>float64\<close>, ties to even).
\<close>

text \<open>Powers of two with an integer exponent.\<close>

definition pow2 :: "int \<Rightarrow> rat" where
  "pow2 e = (if 0 \<le> e then 2 ^ nat e else 1 / 2 ^ nat (- e))"

text \<open>The binary exponent of a positive rational: the \<open>e\<close> with \<open>2^e \<le> a < 2^(e+1)\<close>.\<close>

definition ilog2 :: "rat \<Rightarrow> int" where
  "ilog2 a = (if 1 \<le> a then bitlen \<lfloor>a\<rfloor> - 1 else - bitlen (\<lceil>1 / a\<rceil> - 1))"

definition round_half_even :: "rat \<Rightarrow> int" where
  "round_half_even x =
     (let f = \<lfloor>x\<rfloor>; d = x - of_int f in
      if d < 1 / 2 then f
      else if 1 / 2 < d then f + 1
      else if even f then f else f + 1)"

text \<open>A \<open>float64\<close> that is not NaN: the sign bit (\<open>True\<close> for minus) and the magnitude, or an
  infinity.\<close>

datatype float64 = Finite bool rat | Infinite bool

text \<open>
  \<open>(*big.Float).Float64\<close>: the nearest \<open>float64\<close>, ties to even. The magnitude is rounded
  to a multiple of the unit in the last place, \<open>2^(e - 52)\<close> with the exponent \<open>e\<close> of the
  value, not below the exponent \<open>-1022\<close> of the smallest normal number; a result whose
  exponent exceeds 1023 is an infinity.
\<close>

definition Float64 :: "rat \<Rightarrow> float64" where
  "Float64 x =
     (if x = 0 then Finite False 0
      else
        let a = \<bar>x\<bar>;
            e = max (ilog2 a) (- 1022);
            ulp = pow2 (e - 52);
            y = of_int (round_half_even (a / ulp)) * ulp
        in if 1024 \<le> ilog2 y then Infinite (x < 0) else Finite (x < 0) y)"

text \<open>\<open>fmt.Sprintf("%.2f", val)\<close>.\<close>

definition Sprintf_2f :: "float64 \<Rightarrow> string" where
  "Sprintf_2f val =
     (case val of
        Infinite neg \<Rightarrow> (if neg then ''-Inf'' else ''+Inf'')
      | Finite neg a \<Rightarrow>
          (let h = round_half_even (a * 100) in
           (if neg then ''-'' else []) @ decimal (h div 100) @ ''.'' @
           decimal (h mod 100 div 10) @ decimal (h mod 10)))"

text \<open>The loop over the units: the value and the unit it stops at, \<open>PB\<close> after the last.\<close>

fun scale :: "string list \<Rightarrow> rat \<Rightarrow> rat \<times> string" where
  "scale [] fSize = (fSize, ''PB'')"
| "scale (unit # units) fSize =
     (if fSize < 1024 then (fSize, unit) else scale units (fSize / 1024))"

definition formatBytes :: "int \<Rightarrow> string" where
  "formatBytes Bytes =
     (let (fSize, unit) = scale [''B'', ''KB'', ''MB'', ''GB'', ''TB''] (of_int Bytes)
      in Sprintf_2f (Float64 fSize) @ '' '' @ unit)"

section \<open>The persisted state: \<open>loadStats\<close> and \<open>saveStats\<close>\<close>

text \<open>The stats file: absent, holding a record that unmarshals, or a file that cannot be read
  or parsed.\<close>

datatype stats_file = Absent | Stored Stats | Unreadable

text \<open>\<open>loadStats\<close> returns the record, the first-run flag, and the error.\<close>

definition loadStats :: "stats_file \<Rightarrow> error + (Stats \<times> bool)" where
  "loadStats file =
     (case file of
        Absent \<Rightarrow> Inr (\<lparr>Month = [], RX = 0, TX = 0\<rparr>, True)
      | Unreadable \<Rightarrow> Inl ErrReadFile
      | Stored stats \<Rightarrow> Inr (stats, False))"

text \<open>
  How \<open>os.WriteFile\<close> can fail: at the open (the file stays as it was), at the write after
  the open has created or truncated the file (the file is left empty or with a part of the
  JSON text, which does not unmarshal), or at the close after the whole text is written.
\<close>

datatype write_failure = OpenFailed | WriteFailed | CloseFailed

text \<open>\<open>saveStats\<close>: the first argument says whether \<open>os.WriteFile\<close> succeeds, the second how it
  fails when it does not. Returns the error, if any, and the file.\<close>

definition saveStats ::
  "bool \<Rightarrow> write_failure \<Rightarrow> stats_file \<Rightarrow> Stats \<Rightarrow> error option \<times> stats_file" where
  "saveStats write_ok failure file stats =
     (if write_ok then (None, Stored stats)
      else
        (Some ErrWriteFile,
         case failure of
           OpenFailed \<Rightarrow> file
         | WriteFailed \<Rightarrow> Unreadable
         | CloseFailed \<Rightarrow> Stored stats))"

section \<open>The accounting engine: \<open>SendMonthlyNetStats\<close>\<close>

text \<open>
  Everything one invocation reads from outside, apart from the stats file:
  the result of \<open>readConfig\<close>, the clock, the text of \<open>/proc/net/dev\<close>, whether the stats
  file can be written, how the write fails when it cannot, and whether the webhook answers
  with success.
\<close>

record world =
  config_json :: "Config option"
  now :: Time
  proc_net_dev :: "string option"
  write_ok :: bool
  write_failure :: write_failure
  webhook_ok :: bool

text \<open>The log lines of the program, by the place that writes them.\<close>

datatype log_line =
    ErrorConfig | ErrorLoadStats | ErrorNetwork | ErrorSaveStats | ErrorDiscord
  | InfoNewMonth | InfoFirstRunSkip | WarnCounterReset

text \<open>
  The three ways an invocation ends without a fatal error: the return of the first run
  (\<open>Skip\<close>), the return after a counter reset (\<open>ResetDetected\<close>), and the call of
  \<open>sendToDiscord\<close> with the usage of the period (\<open>Report usedRX usedTX total\<close>).
\<close>

datatype action = Skip | ResetDetected | Report int int int

text \<open>The arguments of a call of \<open>sendToDiscord\<close>.\<close>

record discord_call =
  interfaceName :: string
  rxValue :: string
  txValue :: string
  totalValue :: string
  webhookURL :: string
  botName :: string

text \<open>
  What one invocation leaves behind: the exit code (0 when the function returns, 1 for
  \<open>os.Exit(1)\<close>), the stats file, the records handed to \<open>saveStats\<close>, the calls of
  \<open>sendToDiscord\<close>, the log, and the action taken (\<open>None\<close> when the run stops before the
  engine decides).
\<close>

record outcome =
  exit_code :: nat
  file_after :: stats_file
  saved :: "Stats list"
  sent :: "discord_call list"
  logs :: "log_line list"
  taken :: "action option"

text \<open>The call of lines 242 to 249, for the usage \<open>usedRX\<close>, \<open>usedTX\<close> and their total.\<close>

definition notification :: "Config \<Rightarrow> int \<Rightarrow> int \<Rightarrow> int \<Rightarrow> discord_call" where
  "notification config usedRX usedTX usedTotal =
     \<lparr>interfaceName = Interface config,
      rxValue = formatBytes usedRX, txValue = formatBytes usedTX,
      totalValue = formatBytes usedTotal,
      webhookURL = WebhookURL config, botName = BotName config\<rparr>"

text \<open>
  Lines 223 to 254: the first-run return, the usage, the counter-reset branch and the
  notification. \<open>saved\<close> and \<open>logs\<close> are what the run has handed to \<open>saveStats\<close> and logged
  so far.
\<close>

definition report_usage ::
  "world \<Rightarrow> Config \<Rightarrow> string \<Rightarrow> Stats \<Rightarrow> bool \<Rightarrow> stats_file \<Rightarrow> Stats list \<Rightarrow> log_line list \<Rightarrow>
   int \<Rightarrow> int \<Rightarrow> outcome"
  where
  "report_usage w config monthKey stats isFirstRun file saved0 logs0 currentRX currentTX =
     (if isFirstRun then
        \<lparr>exit_code = 0, file_after = file, saved = saved0, sent = [],
         logs = logs0 @ [InfoFirstRunSkip], taken = Some Skip\<rparr>
      else
        (let usedRX = currentRX - RX stats;
             usedTX = currentTX - TX stats
         in
         if usedRX < 0 \<or> usedTX < 0 then
           (let stats' = stats\<lparr>RX := currentRX, TX := currentTX, Month := monthKey\<rparr>;
                (err, file') = saveStats (write_ok w) (write_failure w) file stats'
            in \<lparr>exit_code = 0, file_after = file', saved = saved0 @ [stats'], sent = [],
                logs = logs0 @ [WarnCounterReset], taken = Some ResetDetected\<rparr>)
         else
           (let total = usedRX + usedTX in
            if webhook_ok w then
              \<lparr>exit_code = 0, file_after = file, saved = saved0,
               sent = [notification config usedRX usedTX total],
               logs = logs0, taken = Some (Report usedRX usedTX total)\<rparr>
            else
              \<lparr>exit_code = 1, file_after = file, saved = saved0,
               sent = [notification config usedRX usedTX total],
               logs = logs0 @ [ErrorDiscord], taken = Some (Report usedRX usedTX total)\<rparr>)))"

text \<open>Lines 209 to 254: the new-month block, then the rest of the run.\<close>

definition account ::
  "world \<Rightarrow> Config \<Rightarrow> string \<Rightarrow> Stats \<Rightarrow> bool \<Rightarrow> stats_file \<Rightarrow> int \<Rightarrow> int \<Rightarrow> outcome"
  where
  "account w config monthKey stats isFirstRun file currentRX currentTX =
     (if Month stats \<noteq> monthKey then
        (let stats' = \<lparr>Month = monthKey, RX = currentRX, TX = currentTX\<rparr>;
             (err, file') = saveStats (write_ok w) (write_failure w) file stats'
         in
         if err \<noteq> None then
           \<lparr>exit_code = 1, file_after = file', saved = [stats'], sent = [],
            logs = [ErrorSaveStats], taken = None\<rparr>
         else
           report_usage w config monthKey stats' isFirstRun file' [stats'] [InfoNewMonth]
             currentRX currentTX)
      else
        report_usage w config monthKey stats isFirstRun file [] [] currentRX currentTX)"

text \<open>A fatal error before the engine decides: logged, then \<open>os.Exit(1)\<close>.\<close>

definition fatal :: "log_line \<Rightarrow> stats_file \<Rightarrow> outcome" where
  "fatal line file =
     \<lparr>exit_code = 1, file_after = file, saved = [], sent = [], logs = [line], taken = None\<rparr>"

definition SendMonthlyNetStats :: "world \<Rightarrow> stats_file \<Rightarrow> outcome" where
  "SendMonthlyNetStats w file =
     (case config_json w of
        None \<Rightarrow> fatal ErrorConfig file
      | Some config \<Rightarrow>
          (let monthKey = Format_2006_01 (now w) in
           (case loadStats file of
              Inl err \<Rightarrow> fatal ErrorLoadStats file
            | Inr (stats, isFirstRun) \<Rightarrow>
                (case readNetworkBytes (proc_net_dev w) (Interface config) of
                   Inl err \<Rightarrow> fatal ErrorNetwork file
                 | Inr (currentRX, currentTX) \<Rightarrow>
                     account w config monthKey stats isFirstRun file currentRX currentTX))))"

section \<open>The one-shot variant: \<open>main\<close> of \<open>main.go\<close>\<close>

text \<open>
  \<open>main.go\<close> holds the same run as the body of \<open>main\<close>, with \<open>int64\<close> counters and without
  the counter-reset branch. \<open>readConfig\<close>, \<open>readNetworkBytes\<close> (up to the type of the
  result), \<open>saveStats\<close> and \<open>sendToDiscord\<close> are those of the other file. Its functions
  that differ carry the prefix \<open>main_go\<close> here.
\<close>

text \<open>\<open>int64\<close> arithmetic wraps.\<close>

definition int64 :: "int \<Rightarrow> int" where
  "int64 x = (x + 2 ^ 63) mod 2 ^ 64 - 2 ^ 63"

text \<open>\<open>loadStats\<close>: a number beyond \<open>int64\<close> does not unmarshal into the \<open>int64\<close> fields.\<close>

definition main_go_loadStats :: "stats_file \<Rightarrow> error + (Stats \<times> bool)" where
  "main_go_loadStats file =
     (case file of
        Absent \<Rightarrow> Inr (\<lparr>Month = [], RX = 0, TX = 0\<rparr>, True)
      | Unreadable \<Rightarrow> Inl ErrReadFile
      | Stored stats \<Rightarrow>
          if - (2 ^ 63) \<le> RX stats \<and> RX stats < 2 ^ 63 \<and>
             - (2 ^ 63) \<le> TX stats \<and> TX stats < 2 ^ 63
          then Inr (stats, False) else Inl ErrReadFile)"

text \<open>
  \<open>formatBytes\<close> of \<open>main.go\<close> works on a \<open>float64\<close>: the comparison with 1024 and the
  division by 1024, which gives the \<open>float64\<close> nearest to the quotient.
\<close>

definition float64_less_1024 :: "float64 \<Rightarrow> bool" where
  "float64_less_1024 fsize =
     (case fsize of
        Finite neg a \<Rightarrow> (if neg then - a else a) < 1024
      | Infinite neg \<Rightarrow> neg)"

definition float64_div_1024 :: "float64 \<Rightarrow> float64" where
  "float64_div_1024 fsize =
     (case fsize of
        Finite neg a \<Rightarrow>
          (case Float64 (a / 1024) of
             Finite s y \<Rightarrow> Finite neg y
           | Infinite s \<Rightarrow> Infinite neg)
      | Infinite neg \<Rightarrow> Infinite neg)"

fun main_go_scale :: "string list \<Rightarrow> float64 \<Rightarrow> float64 \<times> string" where
  "main_go_scale [] fsize = (fsize, ''PB'')"
| "main_go_scale (unit # units) fsize =
     (if float64_less_1024 fsize then (fsize, unit)
      else main_go_scale units (float64_div_1024 fsize))"

definition main_go_formatBytes :: "int \<Rightarrow> string" where
  "main_go_formatBytes nBytes =
     (let (fsize, unit) =
            main_go_scale [''B'', ''KB'', ''MB'', ''GB'', ''TB''] (Float64 (of_int nBytes))
      in Sprintf_2f fsize @ '' '' @ unit)"

text \<open>Lines 219 to 221: the usage.\<close>

definition main_go_usage :: "int \<Rightarrow> int \<Rightarrow> Stats \<Rightarrow> int \<times> int \<times> int" where
  "main_go_usage currentRX currentTX stats =
     (let usedRX = int64 (currentRX - RX stats);
          usedTX = int64 (currentTX - TX stats);
          total = int64 (usedRX + usedTX)
      in (usedRX, usedTX, total))"

text \<open>The call of lines 223 to 230.\<close>

definition main_go_notification :: "Config \<Rightarrow> int \<Rightarrow> int \<Rightarrow> int \<Rightarrow> discord_call" where
  "main_go_notification config usedRX usedTX usedTotal =
     \<lparr>interfaceName = Interface config,
      rxValue = main_go_formatBytes usedRX, txValue = main_go_formatBytes usedTX,
      totalValue = main_go_formatBytes usedTotal,
      webhookURL = WebhookURL config, botName = BotName config\<rparr>"

text \<open>Lines 214 to 234: the first-run return, the usage and the notification.\<close>

definition main_go_report ::
  "world \<Rightarrow> Config \<Rightarrow> Stats \<Rightarrow> bool \<Rightarrow> stats_file \<Rightarrow> Stats list \<Rightarrow> log_line list \<Rightarrow>
   int \<Rightarrow> int \<Rightarrow> outcome"
  where
  "main_go_report w config stats isFirstRun file saved0 logs0 currentRX currentTX =
     (if isFirstRun then
        \<lparr>exit_code = 0, file_after = file, saved = saved0, sent = [],
         logs = logs0 @ [InfoFirstRunSkip], taken = Some Skip\<rparr>
      else
        (let (usedRX, usedTX, total) = main_go_usage currentRX currentTX stats in
         if webhook_ok w then
           \<lparr>exit_code = 0, file_after = file, saved = saved0,
            sent = [main_go_notification config usedRX usedTX total],
            logs = logs0, taken = Some (Report usedRX usedTX total)\<rparr>
         else
           \<lparr>exit_code = 1, file_after = file, saved = saved0,
            sent = [main_go_notification config usedRX usedTX total],
            logs = logs0 @ [ErrorDiscord], taken = Some (Report usedRX usedTX total)\<rparr>))"

text \<open>Lines 200 to 234: the new-month block, then the rest of the run.\<close>

definition main_go_account ::
  "world \<Rightarrow> Config \<Rightarrow> string \<Rightarrow> Stats \<Rightarrow> bool \<Rightarrow> stats_file \<Rightarrow> int \<Rightarrow> int \<Rightarrow> outcome"
  where
  "main_go_account w config monthKey stats isFirstRun file currentRX currentTX =
     (if Month stats \<noteq> monthKey then
        (let stats' = \<lparr>Month = monthKey, RX = currentRX, TX = currentTX\<rparr>;
             (err, file') = saveStats (write_ok w) (write_failure w) file stats'
         in
         if err \<noteq> None then
           \<lparr>exit_code = 1, file_after = file', saved = [stats'], sent = [],
            logs = [ErrorSaveStats], taken = None\<rparr>
         else
           main_go_report w config stats' isFirstRun file' [stats'] [InfoNewMonth]
             currentRX currentTX)
      else
        main_go_report w config stats isFirstRun file [] [] currentRX currentTX)"

definition main_go :: "world \<Rightarrow> stats_file \<Rightarrow> outcome" where
  "main_go w file =
     (case config_json w of
        None \<Rightarrow> fatal ErrorConfig file
      | Some config \<Rightarrow>
          (let monthKey = Format_2006_01 (now w) in
           (case main_go_loadStats file of
              Inl err \<Rightarrow> fatal ErrorLoadStats file
            | Inr (stats, isFirstRun) \<Rightarrow>
                (case readNetworkBytes (proc_net_dev w) (Interface config) of
                   Inl err \<Rightarrow> fatal ErrorNetwork file
                 | Inr (currentRX, currentTX) \<Rightarrow>
                     main_go_account w config monthKey stats isFirstRun file
                       currentRX currentTX))))"

section \<open>Sequences of invocations\<close>

text \<open>
  Successive invocations: each one starts from the stats file the one before left
  (after \<open>os.Exit(1)\<close> the next invocation is a new process).
\<close>

fun invocations :: "world list \<Rightarrow> stats_file \<Rightarrow> outcome list" where
  "invocations [] file = []"
| "invocations (w # ws) file =
     (let r = SendMonthlyNetStats w file in r # invocations ws (file_after r))"

text \<open>
  An invocation on the normal accounting path from the state \<open>st\<close>: the configuration and
  the counters are read, the period is the stored one and no counter is below its baseline.
\<close>

definition normal_run :: "Stats \<Rightarrow> world \<Rightarrow> bool" where
  "normal_run st w =
     (case config_json w of
        None \<Rightarrow> False
      | Some config \<Rightarrow>
          (case readNetworkBytes (proc_net_dev w) (Interface config) of
             Inl err \<Rightarrow> False
           | Inr (rx, tx) \<Rightarrow>
               Format_2006_01 (now w) = Month st \<and> RX st \<le> rx \<and> TX st \<le> tx))"

section \<open>Example inputs\<close>

text \<open>A \<open>/proc/net/dev\<close> with the loopback device and \<open>eth0\<close>, whose byte counters are given.\<close>

definition proc_text :: "int \<Rightarrow> int \<Rightarrow> string" where
  "proc_text rx tx =
     ''Inter-|   Receive                                                |  Transmit'' @ [newline] @
     '' face |bytes    packets errs drop fifo frame compressed multicast|bytes    packets errs drop fifo colls carrier compressed'' @ [newline] @
     ''    lo:    4096      10    0    0    0     0          0         0     4096      10    0    0    0     0       0          0'' @ [newline] @
     ''  eth0: '' @ decimal rx @ ''      12    0    0    0     0          0         0 '' @ decimal tx @ ''       9    0    0    0     0       0          0'' @ [newline]"

definition example_config :: Config where
  "example_config =
     \<lparr>TimeZone = ''Asia/Tokyo'', Interface = ''eth0'', StatsFile = ''/var/lib/traffic/stats.json'',
      WebhookURL = ''https://discord.example/api/webhooks/1'', BotName = ''traffic''\<rparr>"

text \<open>A world by year, month, the two counters of \<open>eth0\<close> and whether the stats file can be
  written (if not, it cannot be opened for writing); the webhook works.\<close>

definition example_world :: "int \<Rightarrow> int \<Rightarrow> int \<Rightarrow> int \<Rightarrow> bool \<Rightarrow> world" where
  "example_world y m rx tx wr =
     \<lparr>config_json = Some example_config, now = \<lparr>year = y, month = m\<rparr>,
      proc_net_dev = Some (proc_text rx tx), write_ok = wr, write_failure = OpenFailed,
      webhook_ok = True\<rparr>"

text \<open>A \<open>/proc/net/dev\<close> in which the device \<open>veth0abc\<close> is listed before \<open>eth0\<close>.\<close>

definition veth_line :: string where
  "veth_line =
     ''veth0abc:    7000      70    0    0    0     0          0         0     9000      90    0    0    0     0       0          0''"

definition veth_text :: string where
  "veth_text =
     ''Inter-|   Receive                                                |  Transmit'' @ [newline] @
     '' face |bytes    packets errs drop fifo frame compressed multicast|bytes    packets errs drop fifo colls carrier compressed'' @ [newline] @
     ''    lo:    4096      10    0    0    0     0          0         0     4096      10    0    0    0     0       0          0'' @ [newline] @
     veth_line @ [newline] @
     ''  eth0:    1500      12    0    0    0     0          0         0      800       9    0    0    0     0       0          0'' @ [newline]"

section \<open>Facts about the counter source\<close>

lemma Contains_sublist: "Contains s substr \<longleftrightarrow> sublist substr s"
  by (induction s) (simp_all add: sublist_Cons_right)

lemma ParseInt_not_ErrNotFound: "ParseInt s \<noteq> Inl ErrNotFound"
  by (auto simp add: ParseInt_def Let_def split: sum.splits error.splits)

lemma scan_lines_find:
  "scan_lines name lines =
     (case find (\<lambda>line. sublist name line \<and> 10 \<le> length (Fields line)) lines of
        None \<Rightarrow> Inl ErrNotFound
      | Some line \<Rightarrow>
          (case ParseInt (Fields line ! 1) of
             Inl err \<Rightarrow> Inl err
           | Inr rx \<Rightarrow>
               (case ParseInt (Fields line ! 9) of
                  Inl err \<Rightarrow> Inl err
                | Inr tx \<Rightarrow> Inr (rx, tx))))"
  by (induction lines) (simp_all add: Contains_sublist Let_def not_less)

lemma scan_lines_not_found:
  "scan_lines name lines = Inl ErrNotFound \<longleftrightarrow>
     \<not> (\<exists>line \<in> set lines. sublist name line \<and> 10 \<le> length (Fields line))"
proof (induction lines)
  case Nil
  then show ?case by simp
next
  case (Cons line lines)
  then show ?case
    using ParseInt_not_ErrNotFound [of "Fields line ! 1"]
      ParseInt_not_ErrNotFound [of "Fields line ! 9"]
    by (auto simp add: Contains_sublist Let_def not_less split: sum.splits)
qed

lemma veth_first_match:
  "find (\<lambda>line. Contains line ''eth0'' \<and> 10 \<le> length (Fields line)) (Split veth_text) =
     Some veth_line"
  by code_simp

lemma veth_fields:
  "ParseInt (Fields veth_line ! 1) = Inr 7000"
  "ParseInt (Fields veth_line ! 9) = Inr 9000"
  by code_simp+

text \<open>
  C10. When \<open>/proc/net/dev\<close> can be read, the lookup takes the first line that has the
  interface name as a substring and at least 10 fields, and returns the integers parsed
  from its fields 1 and 9 (or the parse error); it returns the "not found" error exactly
  when no line has the name as a substring together with at least 10 fields.
\<close>

theorem readNetworkBytes_first_line_containing_name:
  "readNetworkBytes (Some data) name =
     (case find (\<lambda>line. sublist name line \<and> 10 \<le> length (Fields line)) (Split data) of
        None \<Rightarrow> Inl ErrNotFound
      | Some line \<Rightarrow>
          (case ParseInt (Fields line ! 1) of
             Inl err \<Rightarrow> Inl err
           | Inr rx \<Rightarrow>
               (case ParseInt (Fields line ! 9) of
                  Inl err \<Rightarrow> Inl err
                | Inr tx \<Rightarrow> Inr (rx, tx)))) \<and>
   (readNetworkBytes (Some data) name = Inl ErrNotFound \<longleftrightarrow>
      \<not> (\<exists>line \<in> set (Split data). sublist name line \<and> 10 \<le> length (Fields line)))"
  by (simp add: readNetworkBytes_def scan_lines_not_found flip: scan_lines_find)

text \<open>Asked for \<open>eth0\<close>, the lookup reads the counters of \<open>veth0abc\<close>, listed first.\<close>

theorem readNetworkBytes_first_line_containing_name_witness:
  "find (\<lambda>line. sublist ''eth0'' line \<and> 10 \<le> length (Fields line)) (Split veth_text) =
     Some veth_line \<and>
   readNetworkBytes (Some veth_text) ''eth0'' = Inr (7000, 9000)"
proof -
  have a: "find (\<lambda>line. sublist ''eth0'' line \<and> 10 \<le> length (Fields line)) (Split veth_text) =
     Some veth_line"
    by (rule veth_first_match [unfolded Contains_sublist])
  have "readNetworkBytes (Some veth_text) ''eth0'' = Inr (7000, 9000)"
    using readNetworkBytes_first_line_containing_name [of veth_text "''eth0''"]
    by (simp only: a veth_fields option.case sum.case)
  with a show ?thesis by (rule conjI)
qed

section \<open>Facts about the byte formatter\<close>

lemma round_half_even_near: "\<bar>of_int (round_half_even x) - x\<bar> \<le> 1 / 2"
proof -
  have "of_int \<lfloor>x\<rfloor> \<le> x" and "x < of_int \<lfloor>x\<rfloor> + 1"
    by linarith+
  then show ?thesis
    by (auto simp add: round_half_even_def Let_def)
qed

lemma formatBytes_ladder:
  "formatBytes n =
     (if n < 1024 then Sprintf_2f (Float64 (of_int n)) @ '' B''
      else if n < 1024 ^ 2 then Sprintf_2f (Float64 (of_int n / 1024)) @ '' KB''
      else if n < 1024 ^ 3 then Sprintf_2f (Float64 (of_int n / 1024 ^ 2)) @ '' MB''
      else if n < 1024 ^ 4 then Sprintf_2f (Float64 (of_int n / 1024 ^ 3)) @ '' GB''
      else if n < 1024 ^ 5 then Sprintf_2f (Float64 (of_int n / 1024 ^ 4)) @ '' TB''
      else Sprintf_2f (Float64 (of_int n / 1024 ^ 5)) @ '' PB'')"
  by (simp add: formatBytes_def)

lemma Sprintf_2f_two_decimals:
  "Sprintf_2f (Finite False a) =
     decimal (round_half_even (a * 100) div 100) @ ''.'' @
     decimal (round_half_even (a * 100) mod 100 div 10) @
     decimal (round_half_even (a * 100) mod 10) \<and>
   \<bar>of_int (round_half_even (a * 100)) / 100 - a\<bar> \<le> 1 / 200"
  using round_half_even_near [of "a * 100"]
  by (simp add: Sprintf_2f_def Let_def field_simps)

lemma formatBytes_examples:
  "formatBytes 1023 = ''1023.00 B''"
  "formatBytes 1024 = ''1.00 KB''"
  "formatBytes (1024 ^ 5) = ''1.00 PB''"
  "formatBytes (1024 ^ 6) = ''1024.00 PB''"
  by code_simp+

lemma pow2_power_int: "pow2 e = power_int 2 e"
  by (simp add: pow2_def power_int_def field_simps)

lemma pow2_pos: "0 < pow2 e"
  by (simp add: pow2_def)

lemma pow2_add: "pow2 (a + b) = pow2 a * pow2 b"
  by (simp add: pow2_power_int power_int_add)

lemma pow2_mono: "a \<le> b \<Longrightarrow> pow2 a \<le> pow2 b"
  by (simp add: pow2_power_int power_int_increasing)

lemma pow2_strict_mono: "a < b \<Longrightarrow> pow2 a < pow2 b"
  by (simp add: pow2_power_int power_int_strict_increasing)

lemma pow2_nat: "pow2 (int k) = 2 ^ k"
  by (simp add: pow2_def)

lemma of_int_pow2_le: "2 ^ k \<le> (n::int) \<Longrightarrow> (2::rat) ^ k \<le> of_int n"
  by (metis of_int_le_iff of_int_numeral of_int_power)

lemma of_int_less_pow2: "(n::int) < 2 ^ k \<Longrightarrow> (of_int n :: rat) + 1 \<le> 2 ^ k"
proof -
  assume "n < 2 ^ k"
  then have "n + 1 \<le> 2 ^ k" by simp
  then have "(of_int (n + 1) :: rat) \<le> of_int (2 ^ k)" by (simp only: of_int_le_iff)
  then show ?thesis by simp
qed

lemma ilog2_bounds:
  assumes "0 < a"
  shows "pow2 (ilog2 a) \<le> a \<and> a < pow2 (ilog2 a + 1)"
proof (cases "1 \<le> a")
  case True
  define n where "n = \<lfloor>a\<rfloor>"
  have n: "0 < n" using True by (simp add: n_def)
  have na: "of_int n \<le> a" "a < of_int n + 1" by (simp_all add: n_def) linarith
  from bitlen_bounds [OF n] have b: "2 ^ nat (bitlen n - 1) \<le> n" "n < 2 ^ nat (bitlen n)"
    by simp_all
  have L: "1 \<le> bitlen n" using n by (simp add: bitlen_alt_def)
  have "pow2 (bitlen n - 1) = 2 ^ nat (bitlen n - 1)"
    using L by (simp add: pow2_def)
  also have "\<dots> \<le> of_int n" by (rule of_int_pow2_le [OF b(1)])
  finally have lo: "pow2 (bitlen n - 1) \<le> a" using na(1) by simp
  have "a < 2 ^ nat (bitlen n)" using of_int_less_pow2 [OF b(2)] na(2) by linarith
  also have "\<dots> = pow2 (bitlen n)" using L by (simp add: pow2_def)
  finally have hi: "a < pow2 (bitlen n)" .
  from lo hi True show ?thesis by (simp add: ilog2_def n_def)
next
  case False
  define b where "b = 1 / a"
  define N where "N = \<lceil>b\<rceil> - 1"
  have b1: "1 < b" using False assms by (simp add: b_def)
  have N: "0 < N" using b1 by (simp add: N_def)
  have Nb: "of_int N < b" "b \<le> of_int N + 1" by (simp_all add: N_def) linarith
  from bitlen_bounds [OF N] have bb: "2 ^ nat (bitlen N - 1) \<le> N" "N < 2 ^ nat (bitlen N)"
    by simp_all
  have L: "1 \<le> bitlen N" using N by (simp add: bitlen_alt_def)
  have up: "b \<le> 2 ^ nat (bitlen N)" using of_int_less_pow2 [OF bb(2)] Nb(2) by linarith
  have low: "2 ^ nat (bitlen N - 1) < b" using of_int_pow2_le [OF bb(1)] Nb(1) by linarith
  have a: "a = 1 / b" using assms by (simp add: b_def)
  have "pow2 (- bitlen N) = 1 / 2 ^ nat (bitlen N)" using L by (simp add: pow2_def)
  also have "\<dots> \<le> a" unfolding a using up b1 by (simp add: field_simps)
  finally have lo: "pow2 (- bitlen N) \<le> a" .
  have hi: "a < pow2 (- bitlen N + 1)"
  proof (cases "bitlen N = 1")
    case True
    then show ?thesis using False by (simp add: pow2_def)
  next
    case F: False
    with L have "pow2 (- bitlen N + 1) = 1 / 2 ^ nat (bitlen N - 1)"
      by (simp add: pow2_def)
    moreover have "a < 1 / 2 ^ nat (bitlen N - 1)"
      unfolding a using low b1 by (simp add: field_simps)
    ultimately show ?thesis by simp
  qed
  from lo hi False show ?thesis by (simp add: ilog2_def N_def b_def)
qed

lemma ilog2_unique:
  assumes "pow2 e \<le> a" and "a < pow2 (e + 1)"
  shows "ilog2 a = e"
proof -
  have pos: "0 < a" using assms(1) pow2_pos [of e] by linarith
  from ilog2_bounds [OF pos] have b: "pow2 (ilog2 a) \<le> a" "a < pow2 (ilog2 a + 1)" by simp_all
  have "\<not> e + 1 \<le> ilog2 a"
  proof
    assume "e + 1 \<le> ilog2 a"
    from pow2_mono [OF this] b(1) assms(2) show False by linarith
  qed
  moreover have "\<not> ilog2 a + 1 \<le> e"
  proof
    assume "ilog2 a + 1 \<le> e"
    from pow2_mono [OF this] b(2) assms(1) show False by linarith
  qed
  ultimately show ?thesis by linarith
qed

lemma round_half_even_of_int: "round_half_even (of_int i) = i"
  by (simp add: round_half_even_def)


lemma pow2_0: "pow2 0 = 1"
  by (simp add: pow2_def)

lemma pow2_diff: "pow2 (a - b) = pow2 a / pow2 b"
proof -
  have "pow2 (a - b) * pow2 b = pow2 a"
    by (simp flip: pow2_add)
  then show ?thesis using pow2_pos [of b] by (simp add: field_simps)
qed

lemma Float64_exact:
  assumes m: "0 < m" "m < 2 ^ 53" and a1: "(1::rat) \<le> of_int m / 2 ^ j"
  shows "Float64 (of_int m / 2 ^ j) = Finite False (of_int m / 2 ^ j)"
proof -
  define a :: rat where "a = of_int m / 2 ^ j"
  define e where "e = ilog2 a"
  have a1': "1 \<le> a" using a1 unfolding a_def .
  have apos: "0 < a" using a1' by linarith
  from ilog2_bounds [OF apos] have b: "pow2 e \<le> a" "a < pow2 (e + 1)"
    by (simp_all add: e_def)
  have e0: "0 \<le> e"
  proof (rule ccontr)
    assume "\<not> 0 \<le> e"
    then have "e + 1 \<le> 0" by simp
    from pow2_mono [OF this] b(2) a1' show False by (simp add: pow2_0)
  qed
  have am: "a * pow2 (int j) = of_int m"
    by (simp add: a_def pow2_nat)
  have "pow2 (e + int j) = pow2 e * pow2 (int j)" by (rule pow2_add)
  also have "\<dots> \<le> a * pow2 (int j)" using b(1) pow2_pos [of "int j"] by simp
  also have "\<dots> = of_int m" by (rule am)
  also have "\<dots> < of_int (2 ^ 53)" using m(2) by (simp only: of_int_less_iff)
  also have "\<dots> = pow2 53" by (simp add: pow2_def)
  finally have "pow2 (e + int j) < pow2 53" .
  then have ej: "e + int j < 53"
    using pow2_mono [of 53 "e + int j"] by (cases "e + int j < 53") auto
  define k where "k = nat (52 - e - int j)"
  have k: "int k = 52 - e - int j" using ej by (simp add: k_def)
  have "a / pow2 (e - 52) = a * pow2 (int j) * pow2 (int k)"
    using pow2_pos [of "e - 52"] pow2_pos [of "int j"]
    by (simp add: k pow2_diff pow2_add field_simps)
  also have "\<dots> = of_int (m * 2 ^ k)" by (simp add: am) (simp add: pow2_nat)
  finally have q: "a / pow2 (e - 52) = of_int (m * 2 ^ k)" .
  have r: "round_half_even (a / pow2 (e - 52)) = m * 2 ^ k"
    by (simp only: q round_half_even_of_int)
  have "of_int (round_half_even (a / pow2 (e - 52))) * pow2 (e - 52) =
        a / pow2 (e - 52) * pow2 (e - 52)"
    by (simp only: r) (simp only: q)
  also have "\<dots> = a" using pow2_pos [of "e - 52"] by simp
  finally have y: "of_int (round_half_even (a / pow2 (e - 52))) * pow2 (e - 52) = a" .
  have "Float64 a = Finite False a"
    using apos e0 y ej by (simp add: Float64_def Let_def e_def [symmetric])
  then show ?thesis by (simp add: a_def)
qed


lemma Float64_bytes:
  assumes n: "0 \<le> n" "n < 2 ^ 53" and k: "1024 ^ k \<le> n \<or> k = 0"
  shows "Float64 (of_int n / 1024 ^ k) = Finite False (of_int n / 1024 ^ k)"
proof (cases "n = 0")
  case True
  have "(0::int) < 1024 ^ k" by simp
  with True k have "k = 0" by linarith
  with True show ?thesis by (simp add: Float64_def)
next
  case False
  with n have pos: "0 < n" by simp
  have p: "(1024::rat) ^ k = 2 ^ (10 * k)"
    by (simp add: power_mult)
  have "(1024::int) ^ k \<le> n" using k pos by auto
  then have "(of_int (1024 ^ k) :: rat) \<le> of_int n" by (simp only: of_int_le_iff)
  then have "(1::rat) \<le> of_int n / 2 ^ (10 * k)"
    by (simp add: p [symmetric])
  from Float64_exact [OF pos n(2) this] show ?thesis by (simp only: p)
qed

lemma formatBytes_exact:
  assumes "0 \<le> n" and "n < 2 ^ 53"
  shows "formatBytes n =
     (if n < 1024 then Sprintf_2f (Finite False (of_int n)) @ '' B''
      else if n < 1024 ^ 2 then Sprintf_2f (Finite False (of_int n / 1024)) @ '' KB''
      else if n < 1024 ^ 3 then Sprintf_2f (Finite False (of_int n / 1024 ^ 2)) @ '' MB''
      else if n < 1024 ^ 4 then Sprintf_2f (Finite False (of_int n / 1024 ^ 3)) @ '' GB''
      else if n < 1024 ^ 5 then Sprintf_2f (Finite False (of_int n / 1024 ^ 4)) @ '' TB''
      else Sprintf_2f (Finite False (of_int n / 1024 ^ 5)) @ '' PB'')"
proof -
  have "Float64 (of_int n) = Finite False (of_int n)"
    using Float64_bytes [OF assms, of 0] by simp
  moreover have "\<not> n < 1024 \<Longrightarrow> Float64 (of_int n / 1024) = Finite False (of_int n / 1024)"
    using Float64_bytes [OF assms, of 1] by simp
  moreover have "\<not> n < 1024 ^ 2 \<Longrightarrow>
      Float64 (of_int n / 1024 ^ 2) = Finite False (of_int n / 1024 ^ 2)"
    using Float64_bytes [OF assms, of 2] by simp
  moreover have "\<not> n < 1024 ^ 3 \<Longrightarrow>
      Float64 (of_int n / 1024 ^ 3) = Finite False (of_int n / 1024 ^ 3)"
    using Float64_bytes [OF assms, of 3] by simp
  moreover have "\<not> n < 1024 ^ 4 \<Longrightarrow>
      Float64 (of_int n / 1024 ^ 4) = Finite False (of_int n / 1024 ^ 4)"
    using Float64_bytes [OF assms, of 4] by simp
  moreover have "\<not> n < 1024 ^ 5 \<Longrightarrow>
      Float64 (of_int n / 1024 ^ 5) = Finite False (of_int n / 1024 ^ 5)"
    using Float64_bytes [OF assms, of 5] by simp
  ultimately show ?thesis
    by (simp only: formatBytes_ladder [of n] split: if_split) simp
qed

text \<open>
  C7. The formatter divides the byte count by 1024 once for each unit it passes, stopping
  at the first unit where the value is below 1024 and at \<open>PB\<close> at the latest; the text is
  the \<open>float64\<close> nearest to that quotient, printed with two decimals. For a count from 0
  to below \<open>2^53\<close> the quotient is a \<open>float64\<close>, so it is printed itself. Two decimals
  are the number of hundredths nearest to the value (ties to even), within 1/200 of it.
  1023 gives \<open>1023.00 B\<close>, 1024 gives \<open>1.00 KB\<close>, \<open>1024^5\<close> gives \<open>1.00 PB\<close>, and \<open>1024^6\<close>
  gives \<open>1024.00 PB\<close>.
\<close>

theorem formatBytes_unit_ladder:
  "formatBytes n =
     (if n < 1024 then Sprintf_2f (Float64 (of_int n)) @ '' B''
      else if n < 1024 ^ 2 then Sprintf_2f (Float64 (of_int n / 1024)) @ '' KB''
      else if n < 1024 ^ 3 then Sprintf_2f (Float64 (of_int n / 1024 ^ 2)) @ '' MB''
      else if n < 1024 ^ 4 then Sprintf_2f (Float64 (of_int n / 1024 ^ 3)) @ '' GB''
      else if n < 1024 ^ 5 then Sprintf_2f (Float64 (of_int n / 1024 ^ 4)) @ '' TB''
      else Sprintf_2f (Float64 (of_int n / 1024 ^ 5)) @ '' PB'') \<and>
   (0 \<le> n \<and> n < 2 ^ 53 \<longrightarrow>
    formatBytes n =
     (if n < 1024 then Sprintf_2f (Finite False (of_int n)) @ '' B''
      else if n < 1024 ^ 2 then Sprintf_2f (Finite False (of_int n / 1024)) @ '' KB''
      else if n < 1024 ^ 3 then Sprintf_2f (Finite False (of_int n / 1024 ^ 2)) @ '' MB''
      else if n < 1024 ^ 4 then Sprintf_2f (Finite False (of_int n / 1024 ^ 3)) @ '' GB''
      else if n < 1024 ^ 5 then Sprintf_2f (Finite False (of_int n / 1024 ^ 4)) @ '' TB''
      else Sprintf_2f (Finite False (of_int n / 1024 ^ 5)) @ '' PB'')) \<and>
   Sprintf_2f (Finite False a) =
     decimal (round_half_even (a * 100) div 100) @ ''.'' @
     decimal (round_half_even (a * 100) mod 100 div 10) @
     decimal (round_half_even (a * 100) mod 10) \<and>
   \<bar>of_int (round_half_even (a * 100)) / 100 - a\<bar> \<le> 1 / 200 \<and>
   formatBytes 1023 = ''1023.00 B'' \<and>
   formatBytes 1024 = ''1.00 KB'' \<and>
   formatBytes (1024 ^ 5) = ''1.00 PB'' \<and>
   formatBytes (1024 ^ 6) = ''1024.00 PB''"
  by (intro conjI impI; (elim conjE)?;
      rule formatBytes_ladder formatBytes_exact formatBytes_examples
        Sprintf_2f_two_decimals [THEN conjunct1] Sprintf_2f_two_decimals [THEN conjunct2];
      assumption?)

theorem formatBytes_unit_ladder_witness:
  "(0::int) \<le> 1536 \<and> (1536::int) < 2 ^ 53 \<and> formatBytes 1536 = ''1.50 KB''"
proof -
  have "formatBytes 1536 = Sprintf_2f (Finite False (of_int 1536 / 1024)) @ '' KB''"
    using formatBytes_unit_ladder [of 1536 0, THEN conjunct2, THEN conjunct1] by simp
  also have "\<dots> = ''1.50 KB''"
    by code_simp
  finally show ?thesis by simp
qed

section \<open>Facts about the engine\<close>

lemma Format_2006_01_nonempty: "Format_2006_01 t \<noteq> []"
  by (simp add: Format_2006_01_def)

lemma example_counters_1500_800:
  "readNetworkBytes (Some (proc_text 1500 800)) ''eth0'' = Inr (1500, 800)"
  by code_simp

lemma example_counters_2500_1800:
  "readNetworkBytes (Some (proc_text 2500 1800)) ''eth0'' = Inr (2500, 1800)"
  by code_simp

lemma example_counters_100_900:
  "readNetworkBytes (Some (proc_text 100 900)) ''eth0'' = Inr (100, 900)"
  by code_simp

lemma example_period_jan: "Format_2006_01 \<lparr>year = 2025, month = 1\<rparr> = ''2025-01''"
  by code_simp

lemma example_period_feb: "Format_2006_01 \<lparr>year = 2025, month = 2\<rparr> = ''2025-02''"
  by code_simp

lemma example_notifications:
  "notification example_config 500 300 800 =
     \<lparr>interfaceName = ''eth0'', rxValue = ''500.00 B'', txValue = ''300.00 B'',
      totalValue = ''800.00 B'', webhookURL = ''https://discord.example/api/webhooks/1'',
      botName = ''traffic''\<rparr>"
  "notification example_config 0 0 0 =
     \<lparr>interfaceName = ''eth0'', rxValue = ''0.00 B'', txValue = ''0.00 B'',
      totalValue = ''0.00 B'', webhookURL = ''https://discord.example/api/webhooks/1'',
      botName = ''traffic''\<rparr>"
  by code_simp+

lemmas engine_defs =
  SendMonthlyNetStats_def account_def report_usage_def loadStats_def saveStats_def fatal_def
  Let_def

lemmas example_defs =
  example_world_def example_config_def example_counters_1500_800 example_counters_2500_1800
  example_counters_100_900 example_period_jan example_period_feb

text \<open>
  C4. On the first invocation (no stats file) the engine sends nothing and hands
  \<open>saveStats\<close> the record with the current period and the current counters; when the
  write succeeds the run ends as \<open>Skip\<close> and that record is the stats file.
\<close>

theorem first_run_skips_and_baselines:
  assumes "config_json w = Some config"
    and "readNetworkBytes (proc_net_dev w) (Interface config) = Inr (rx, tx)"
  shows "sent (SendMonthlyNetStats w Absent) = [] \<and>
         saved (SendMonthlyNetStats w Absent) =
           [\<lparr>Month = Format_2006_01 (now w), RX = rx, TX = tx\<rparr>] \<and>
         (write_ok w \<longrightarrow>
            taken (SendMonthlyNetStats w Absent) = Some Skip \<and>
            exit_code (SendMonthlyNetStats w Absent) = 0 \<and>
            file_after (SendMonthlyNetStats w Absent) =
              Stored \<lparr>Month = Format_2006_01 (now w), RX = rx, TX = tx\<rparr>)"
  using assms Format_2006_01_nonempty [of "now w"]
  by (auto simp add: engine_defs)

theorem first_run_skips_and_baselines_witness:
  "config_json (example_world 2025 1 1500 800 True) = Some example_config \<and>
   readNetworkBytes (proc_net_dev (example_world 2025 1 1500 800 True)) (Interface example_config)
     = Inr (1500, 800) \<and>
   write_ok (example_world 2025 1 1500 800 True) \<and>
   sent (SendMonthlyNetStats (example_world 2025 1 1500 800 True) Absent) = [] \<and>
   taken (SendMonthlyNetStats (example_world 2025 1 1500 800 True) Absent) = Some Skip \<and>
   file_after (SendMonthlyNetStats (example_world 2025 1 1500 800 True) Absent) =
     Stored \<lparr>Month = ''2025-01'', RX = 1500, TX = 800\<rparr>"
  using first_run_skips_and_baselines
    [of "example_world 2025 1 1500 800 True" example_config 1500 800]
  by (simp add: example_defs)

text \<open>
  C5. On the normal accounting path (the stored period is the current one and neither
  counter is below its baseline) the stats file is left as it was and \<open>saveStats\<close> is not
  called.
\<close>

theorem normal_path_keeps_state:
  assumes "config_json w = Some config"
    and "readNetworkBytes (proc_net_dev w) (Interface config) = Inr (rx, tx)"
    and "Month st = Format_2006_01 (now w)"
    and "RX st \<le> rx" and "TX st \<le> tx"
  shows "file_after (SendMonthlyNetStats w (Stored st)) = Stored st \<and>
         saved (SendMonthlyNetStats w (Stored st)) = []"
  using assms by (simp add: engine_defs)

theorem normal_path_keeps_state_witness:
  "config_json (example_world 2025 1 1500 800 True) = Some example_config \<and>
   readNetworkBytes (proc_net_dev (example_world 2025 1 1500 800 True)) (Interface example_config)
     = Inr (1500, 800) \<and>
   Month \<lparr>Month = ''2025-01'', RX = 1000, TX = 500\<rparr> =
     Format_2006_01 (now (example_world 2025 1 1500 800 True)) \<and>
   file_after (SendMonthlyNetStats (example_world 2025 1 1500 800 True)
       (Stored \<lparr>Month = ''2025-01'', RX = 1000, TX = 500\<rparr>)) =
     Stored \<lparr>Month = ''2025-01'', RX = 1000, TX = 500\<rparr> \<and>
   saved (SendMonthlyNetStats (example_world 2025 1 1500 800 True)
       (Stored \<lparr>Month = ''2025-01'', RX = 1000, TX = 500\<rparr>)) = []"
  using normal_path_keeps_state
    [of "example_world 2025 1 1500 800 True" example_config 1500 800
        "\<lparr>Month = ''2025-01'', RX = 1000, TX = 500\<rparr>"]
  by (simp add: example_defs)

text \<open>
  In \<open>SendMonthlyNetStats\<close>, on the normal accounting path, the usage handed to the
  notifier is the difference of the counters and the baseline, each at least 0, and the
  total is their sum; the values are unbounded integers (\<open>big.Int\<close>), so nothing is rounded
  and nothing wraps.
\<close>

lemma normal_path_reports_exact_difference:
  assumes "config_json w = Some config"
    and "readNetworkBytes (proc_net_dev w) (Interface config) = Inr (rx, tx)"
    and "Month st = Format_2006_01 (now w)"
    and "RX st \<le> rx" and "TX st \<le> tx"
  shows "taken (SendMonthlyNetStats w (Stored st)) =
           Some (Report (rx - RX st) (tx - TX st) ((rx - RX st) + (tx - TX st))) \<and>
         sent (SendMonthlyNetStats w (Stored st)) =
           [notification config (rx - RX st) (tx - TX st) ((rx - RX st) + (tx - TX st))] \<and>
         0 \<le> rx - RX st \<and> 0 \<le> tx - TX st"
  using assms by (simp add: engine_defs)

lemma normal_path_reports_exact_difference_example:
  "config_json (example_world 2025 1 1500 800 True) = Some example_config \<and>
   readNetworkBytes (proc_net_dev (example_world 2025 1 1500 800 True)) (Interface example_config)
     = Inr (1500, 800) \<and>
   Month \<lparr>Month = ''2025-01'', RX = 1000, TX = 500\<rparr> =
     Format_2006_01 (now (example_world 2025 1 1500 800 True)) \<and>
   taken (SendMonthlyNetStats (example_world 2025 1 1500 800 True)
       (Stored \<lparr>Month = ''2025-01'', RX = 1000, TX = 500\<rparr>)) = Some (Report 500 300 800) \<and>
   sent (SendMonthlyNetStats (example_world 2025 1 1500 800 True)
       (Stored \<lparr>Month = ''2025-01'', RX = 1000, TX = 500\<rparr>)) =
     [\<lparr>interfaceName = ''eth0'', rxValue = ''500.00 B'', txValue = ''300.00 B'',
       totalValue = ''800.00 B'', webhookURL = ''https://discord.example/api/webhooks/1'',
       botName = ''traffic''\<rparr>]"
  using normal_path_reports_exact_difference
    [of "example_world 2025 1 1500 800 True" example_config 1500 800
        "\<lparr>Month = ''2025-01'', RX = 1000, TX = 500\<rparr>"]
  by (simp add: example_defs example_notifications [unfolded example_config_def])

text \<open>
  In \<open>SendMonthlyNetStats\<close>, in the period of the stored state, when a counter is below its
  baseline the run ends as \<open>ResetDetected\<close>: nothing is sent, the function returns, and
  \<open>saveStats\<close> gets the record with the same period and the current counters, which is the
  stats file when the write succeeds.
\<close>

lemma counter_reset_rebaselines:
  assumes "config_json w = Some config"
    and "readNetworkBytes (proc_net_dev w) (Interface config) = Inr (rx, tx)"
    and "Month st = Format_2006_01 (now w)"
    and "rx < RX st \<or> tx < TX st"
  shows "taken (SendMonthlyNetStats w (Stored st)) = Some ResetDetected \<and>
         sent (SendMonthlyNetStats w (Stored st)) = [] \<and>
         exit_code (SendMonthlyNetStats w (Stored st)) = 0 \<and>
         saved (SendMonthlyNetStats w (Stored st)) = [\<lparr>Month = Month st, RX = rx, TX = tx\<rparr>] \<and>
         (write_ok w \<longrightarrow>
            file_after (SendMonthlyNetStats w (Stored st)) =
              Stored \<lparr>Month = Month st, RX = rx, TX = tx\<rparr>)"
  using assms by (auto simp add: engine_defs)

lemma counter_reset_rebaselines_example:
  "config_json (example_world 2025 1 100 900 True) = Some example_config \<and>
   readNetworkBytes (proc_net_dev (example_world 2025 1 100 900 True)) (Interface example_config)
     = Inr (100, 900) \<and>
   Month \<lparr>Month = ''2025-01'', RX = 900, TX = 900\<rparr> =
     Format_2006_01 (now (example_world 2025 1 100 900 True)) \<and>
   (100::int) < RX \<lparr>Month = ''2025-01'', RX = 900, TX = 900\<rparr> \<and>
   write_ok (example_world 2025 1 100 900 True) \<and>
   taken (SendMonthlyNetStats (example_world 2025 1 100 900 True)
       (Stored \<lparr>Month = ''2025-01'', RX = 900, TX = 900\<rparr>)) = Some ResetDetected \<and>
   sent (SendMonthlyNetStats (example_world 2025 1 100 900 True)
       (Stored \<lparr>Month = ''2025-01'', RX = 900, TX = 900\<rparr>)) = [] \<and>
   file_after (SendMonthlyNetStats (example_world 2025 1 100 900 True)
       (Stored \<lparr>Month = ''2025-01'', RX = 900, TX = 900\<rparr>)) =
     Stored \<lparr>Month = ''2025-01'', RX = 100, TX = 900\<rparr>"
  using counter_reset_rebaselines
    [of "example_world 2025 1 100 900 True" example_config 100 900
        "\<lparr>Month = ''2025-01'', RX = 900, TX = 900\<rparr>"]
  by (simp add: example_defs)

text \<open>
  C1, as stated, fails: with the state of January 2025 (baseline 1000, 500) and the
  counters 1500, 800 read in February 2025, the run does not end as \<open>Skip\<close>; it calls
  \<open>sendToDiscord\<close> with the usage 0, 0, 0.
\<close>

theorem rollover_skip_counterexample:
  "Month \<lparr>Month = ''2025-01'', RX = 1000, TX = 500\<rparr> \<noteq>
     Format_2006_01 (now (example_world 2025 2 1500 800 True)) \<and>
   taken (SendMonthlyNetStats (example_world 2025 2 1500 800 True)
       (Stored \<lparr>Month = ''2025-01'', RX = 1000, TX = 500\<rparr>)) \<noteq> Some Skip \<and>
   sent (SendMonthlyNetStats (example_world 2025 2 1500 800 True)
       (Stored \<lparr>Month = ''2025-01'', RX = 1000, TX = 500\<rparr>)) =
     [\<lparr>interfaceName = ''eth0'', rxValue = ''0.00 B'', txValue = ''0.00 B'',
       totalValue = ''0.00 B'', webhookURL = ''https://discord.example/api/webhooks/1'',
       botName = ''traffic''\<rparr>]"
  by (simp add: engine_defs example_defs example_notifications [unfolded example_config_def])

text \<open>
  C1, amended. When a state exists and its period is not the current one, \<open>saveStats\<close>
  gets the record with the current period and the current counters. When the write
  succeeds that record is the stats file and the run goes on to \<open>sendToDiscord\<close> with the
  usage 0, 0, 0 (only the first run is skipped); when it fails the process exits with
  status 1 and sends nothing.
\<close>

theorem rollover_rebaselines_and_reports_zero:
  assumes "config_json w = Some config"
    and "readNetworkBytes (proc_net_dev w) (Interface config) = Inr (rx, tx)"
    and "Month st \<noteq> Format_2006_01 (now w)"
  shows "saved (SendMonthlyNetStats w (Stored st)) =
           [\<lparr>Month = Format_2006_01 (now w), RX = rx, TX = tx\<rparr>] \<and>
         (write_ok w \<longrightarrow>
            file_after (SendMonthlyNetStats w (Stored st)) =
              Stored \<lparr>Month = Format_2006_01 (now w), RX = rx, TX = tx\<rparr> \<and>
            taken (SendMonthlyNetStats w (Stored st)) = Some (Report 0 0 0) \<and>
            sent (SendMonthlyNetStats w (Stored st)) = [notification config 0 0 0]) \<and>
         (\<not> write_ok w \<longrightarrow>
            exit_code (SendMonthlyNetStats w (Stored st)) = 1 \<and>
            sent (SendMonthlyNetStats w (Stored st)) = [])"
  using assms by (auto simp add: engine_defs)

theorem rollover_rebaselines_and_reports_zero_witness:
  "config_json (example_world 2025 2 1500 800 True) = Some example_config \<and>
   readNetworkBytes (proc_net_dev (example_world 2025 2 1500 800 True)) (Interface example_config)
     = Inr (1500, 800) \<and>
   Month \<lparr>Month = ''2025-01'', RX = 1000, TX = 500\<rparr> \<noteq>
     Format_2006_01 (now (example_world 2025 2 1500 800 True)) \<and>
   write_ok (example_world 2025 2 1500 800 True) \<and>
   file_after (SendMonthlyNetStats (example_world 2025 2 1500 800 True)
       (Stored \<lparr>Month = ''2025-01'', RX = 1000, TX = 500\<rparr>)) =
     Stored \<lparr>Month = ''2025-02'', RX = 1500, TX = 800\<rparr> \<and>
   taken (SendMonthlyNetStats (example_world 2025 2 1500 800 True)
       (Stored \<lparr>Month = ''2025-01'', RX = 1000, TX = 500\<rparr>)) = Some (Report 0 0 0)"
  using rollover_rebaselines_and_reports_zero
    [of "example_world 2025 2 1500 800 True" example_config 1500 800
        "\<lparr>Month = ''2025-01'', RX = 1000, TX = 500\<rparr>"]
  by (simp add: example_defs)

text \<open>
  C8. After a rollover run or a counter-reset run whose write succeeded, a second run with
  the same counters in the same period ends as \<open>Report\<close> with the usage 0, 0, 0.
\<close>

theorem rerun_after_rebaseline_reports_zero:
  assumes "config_json w = Some config"
    and "readNetworkBytes (proc_net_dev w) (Interface config) = Inr (rx, tx)"
    and "Month st \<noteq> Format_2006_01 (now w) \<or> rx < RX st \<or> tx < TX st"
    and "write_ok w"
    and "config_json w' = Some config'"
    and "readNetworkBytes (proc_net_dev w') (Interface config') = Inr (rx, tx)"
    and "Format_2006_01 (now w') = Format_2006_01 (now w)"
  shows "taken (SendMonthlyNetStats w' (file_after (SendMonthlyNetStats w (Stored st)))) =
           Some (Report 0 0 0) \<and>
         sent (SendMonthlyNetStats w' (file_after (SendMonthlyNetStats w (Stored st)))) =
           [notification config' 0 0 0]"
  using assms by (auto simp add: engine_defs)

theorem rerun_after_rebaseline_reports_zero_witness:
  "config_json (example_world 2025 1 100 900 True) = Some example_config \<and>
   readNetworkBytes (proc_net_dev (example_world 2025 1 100 900 True)) (Interface example_config)
     = Inr (100, 900) \<and>
   (100::int) < RX \<lparr>Month = ''2025-01'', RX = 900, TX = 900\<rparr> \<and>
   write_ok (example_world 2025 1 100 900 True) \<and>
   taken (SendMonthlyNetStats (example_world 2025 1 100 900 True)
       (file_after (SendMonthlyNetStats (example_world 2025 1 100 900 True)
          (Stored \<lparr>Month = ''2025-01'', RX = 900, TX = 900\<rparr>)))) = Some (Report 0 0 0) \<and>
   sent (SendMonthlyNetStats (example_world 2025 1 100 900 True)
       (file_after (SendMonthlyNetStats (example_world 2025 1 100 900 True)
          (Stored \<lparr>Month = ''2025-01'', RX = 900, TX = 900\<rparr>)))) =
     [notification example_config 0 0 0]"
  using rerun_after_rebaseline_reports_zero
    [of "example_world 2025 1 100 900 True" example_config 100 900
        "\<lparr>Month = ''2025-01'', RX = 900, TX = 900\<rparr>"
        "example_world 2025 1 100 900 True" example_config]
  by (simp add: example_defs)

text \<open>
  C6 at a failing input: the stats file of January 2025 holds the baseline 900, 900, the
  counters read 100, 900 in the same month, and the file cannot be written. The error of
  \<open>saveStats\<close> is dropped: the function logs the reset and returns (exit code 0) as it
  does after a successful write.
\<close>

theorem reset_save_failure_is_not_fatal:
  "\<not> write_ok (example_world 2025 1 100 900 False) \<and>
   saved (SendMonthlyNetStats (example_world 2025 1 100 900 False)
       (Stored \<lparr>Month = ''2025-01'', RX = 900, TX = 900\<rparr>)) =
     [\<lparr>Month = ''2025-01'', RX = 100, TX = 900\<rparr>] \<and>
   exit_code (SendMonthlyNetStats (example_world 2025 1 100 900 False)
       (Stored \<lparr>Month = ''2025-01'', RX = 900, TX = 900\<rparr>)) = 0 \<and>
   taken (SendMonthlyNetStats (example_world 2025 1 100 900 False)
       (Stored \<lparr>Month = ''2025-01'', RX = 900, TX = 900\<rparr>)) = Some ResetDetected \<and>
   logs (SendMonthlyNetStats (example_world 2025 1 100 900 False)
       (Stored \<lparr>Month = ''2025-01'', RX = 900, TX = 900\<rparr>)) = [WarnCounterReset]"
  by (simp add: engine_defs example_defs)

text \<open>The sibling path: a failed write on the first run or at a rollover is fatal, and
  nothing is sent.\<close>

lemma save_failure_on_new_period_is_fatal:
  assumes "config_json w = Some config"
    and "readNetworkBytes (proc_net_dev w) (Interface config) = Inr (rx, tx)"
    and "f = Absent \<or> (\<exists>st. f = Stored st \<and> Month st \<noteq> Format_2006_01 (now w))"
    and "\<not> write_ok w"
  shows "exit_code (SendMonthlyNetStats w f) = 1 \<and>
         sent (SendMonthlyNetStats w f) = [] \<and>
         logs (SendMonthlyNetStats w f) = [ErrorSaveStats]"
  using assms Format_2006_01_nonempty [of "now w"]
  by (auto simp add: engine_defs)

text \<open>
  C2, as stated, fails: two invocations in January 2025 from the baseline 1000, 500, the
  counters reading 1500, 800 and then 2500, 1800, both call \<open>sendToDiscord\<close>.
\<close>

theorem once_per_period_counterexample:
  "Format_2006_01 (now (example_world 2025 1 1500 800 True)) =
     Format_2006_01 (now (example_world 2025 1 2500 1800 True)) \<and>
   map sent
     (invocations [example_world 2025 1 1500 800 True, example_world 2025 1 2500 1800 True]
        (Stored \<lparr>Month = ''2025-01'', RX = 1000, TX = 500\<rparr>)) =
     [[notification example_config 500 300 800],
      [notification example_config 1500 1300 2800]]"
  by (simp add: engine_defs example_defs)

lemma sent_at_most_one: "length (sent (SendMonthlyNetStats w f)) \<le> Suc 0"
  by (simp add: engine_defs split: option.split sum.split prod.split)

lemma invocations_sent_at_most_one:
  "\<forall>r \<in> set (invocations ws f). length (sent r) \<le> 1"
  by (induction ws arbitrary: f) (simp_all add: Let_def sent_at_most_one)

lemma normal_run_outcome:
  assumes "normal_run st w"
  shows "file_after (SendMonthlyNetStats w (Stored st)) = Stored st \<and>
         length (sent (SendMonthlyNetStats w (Stored st))) = 1"
  using assms
  by (auto simp add: normal_run_def engine_defs split: option.splits sum.splits)

text \<open>
  C2, amended. Every invocation sends at most one notification; and in a sequence of
  invocations on the normal accounting path of one period, each leaves the state as it
  was, so every one of them sends a notification: \<open>n\<close> invocations send \<open>n\<close>.
\<close>

theorem every_normal_run_notifies:
  assumes "\<forall>w \<in> set ws. normal_run st w"
  shows "(\<forall>r \<in> set (invocations vs f). length (sent r) \<le> 1) \<and>
         length (invocations ws (Stored st)) = length ws \<and>
         (\<forall>r \<in> set (invocations ws (Stored st)). length (sent r) = 1)"
proof -
  have "length (invocations ws (Stored st)) = length ws \<and>
        (\<forall>r \<in> set (invocations ws (Stored st)). length (sent r) = 1)"
    using assms
  proof (induction ws)
    case Nil
    then show ?case by simp
  next
    case (Cons w ws)
    from Cons.prems have "normal_run st w" by simp
    from normal_run_outcome [OF this] Cons show ?case
      by (simp add: Let_def)
  qed
  with invocations_sent_at_most_one show ?thesis by blast
qed

theorem every_normal_run_notifies_witness:
  "normal_run \<lparr>Month = ''2025-01'', RX = 1000, TX = 500\<rparr> (example_world 2025 1 1500 800 True) \<and>
   normal_run \<lparr>Month = ''2025-01'', RX = 1000, TX = 500\<rparr> (example_world 2025 1 2500 1800 True) \<and>
   map (\<lambda>r. length (sent r))
     (invocations [example_world 2025 1 1500 800 True, example_world 2025 1 2500 1800 True]
        (Stored \<lparr>Month = ''2025-01'', RX = 1000, TX = 500\<rparr>)) = [1, 1]"
  using every_normal_run_notifies
    [of "[example_world 2025 1 1500 800 True, example_world 2025 1 2500 1800 True]"
        "\<lparr>Month = ''2025-01'', RX = 1000, TX = 500\<rparr>" "[]" Absent]
  by (simp add: normal_run_def example_defs Let_def)

section \<open>Facts about the one-shot variant\<close>

lemma example_counters_big:
  "readNetworkBytes (Some (proc_text 4611686018427387904 4611686018427387904)) ''eth0'' =
     Inr (4611686018427387904, 4611686018427387904)"
  by code_simp

lemma main_go_example_notifications:
  "main_go_notification example_config (- 800) 0 (- 800) =
     \<lparr>interfaceName = ''eth0'', rxValue = ''-800.00 B'', txValue = ''0.00 B'',
      totalValue = ''-800.00 B'', webhookURL = ''https://discord.example/api/webhooks/1'',
      botName = ''traffic''\<rparr>"
  "main_go_notification example_config 4611686018427387904 4611686018427387904
       (- 9223372036854775808) =
     \<lparr>interfaceName = ''eth0'', rxValue = ''4096.00 PB'', txValue = ''4096.00 PB'',
      totalValue = ''-9223372036854775808.00 B'',
      webhookURL = ''https://discord.example/api/webhooks/1'', botName = ''traffic''\<rparr>"
  by code_simp+

lemma main_go_formatBytes_examples:
  "main_go_formatBytes 1023 = ''1023.00 B''"
  "main_go_formatBytes 1024 = ''1.00 KB''"
  "main_go_formatBytes (1024 ^ 5) = ''1.00 PB''"
  "main_go_formatBytes (1024 ^ 6) = ''1024.00 PB''"
  by code_simp+

lemmas main_go_defs =
  main_go_def main_go_account_def main_go_report_def main_go_loadStats_def main_go_usage_def
  int64_def saveStats_def fatal_def Let_def

lemma main_go_usage_examples:
  "main_go_usage 100 900 \<lparr>Month = ''2025-01'', RX = 900, TX = 900\<rparr> = (- 800, 0, - 800)"
  "main_go_usage (2 ^ 62) (2 ^ 62) \<lparr>Month = ''2025-01'', RX = 0, TX = 0\<rparr> =
     (2 ^ 62, 2 ^ 62, - (2 ^ 63))"
  by (simp_all add: main_go_usage_def int64_def Let_def)

text \<open>\<open>main\<close> of \<open>main.go\<close> has no counter-reset return, and it writes the stats file only in
  the new-month block.\<close>

lemma main_go_never_detects_reset:
  "taken (main_go w f) \<noteq> Some ResetDetected"
  by (simp add: main_go_defs split: option.split sum.split prod.split stats_file.split)

lemma main_go_same_period_writes_nothing:
  assumes "Month st = Format_2006_01 (now w)"
  shows "saved (main_go w (Stored st)) = [] \<and> file_after (main_go w (Stored st)) = Stored st"
  using assms
  by (simp add: main_go_defs split: option.split sum.split prod.split)

text \<open>
  C3 at a failing input, in \<open>main.go\<close>: the stats file of January 2025 holds the baseline
  900, 900 and the counters read 100, 900 in the same month. The run does not end as
  \<open>ResetDetected\<close>: it calls \<open>sendToDiscord\<close> with the usage -800, 0, -800, printed as
  \<open>-800.00 B\<close>, \<open>0.00 B\<close> and \<open>-800.00 B\<close>, and the stats file keeps the old baseline.
\<close>

theorem main_go_reports_negative_usage_after_reset:
  "Month \<lparr>Month = ''2025-01'', RX = 900, TX = 900\<rparr> =
     Format_2006_01 (now (example_world 2025 1 100 900 True)) \<and>
   readNetworkBytes (proc_net_dev (example_world 2025 1 100 900 True)) (Interface example_config)
     = Inr (100, 900) \<and>
   taken (main_go (example_world 2025 1 100 900 True)
       (Stored \<lparr>Month = ''2025-01'', RX = 900, TX = 900\<rparr>)) = Some (Report (- 800) 0 (- 800)) \<and>
   sent (main_go (example_world 2025 1 100 900 True)
       (Stored \<lparr>Month = ''2025-01'', RX = 900, TX = 900\<rparr>)) =
     [\<lparr>interfaceName = ''eth0'', rxValue = ''-800.00 B'', txValue = ''0.00 B'',
       totalValue = ''-800.00 B'', webhookURL = ''https://discord.example/api/webhooks/1'',
       botName = ''traffic''\<rparr>] \<and>
   saved (main_go (example_world 2025 1 100 900 True)
       (Stored \<lparr>Month = ''2025-01'', RX = 900, TX = 900\<rparr>)) = [] \<and>
   file_after (main_go (example_world 2025 1 100 900 True)
       (Stored \<lparr>Month = ''2025-01'', RX = 900, TX = 900\<rparr>)) =
     Stored \<lparr>Month = ''2025-01'', RX = 900, TX = 900\<rparr>"
  by (simp add: main_go_defs example_defs
        main_go_example_notifications [unfolded example_config_def])

text \<open>
  C9 at a failing input, in \<open>main.go\<close>: the stats file of January 2025 holds the baseline
  0, 0 and both counters read \<open>2^62 = 4611686018427387904\<close> in the same month. The two
  differences are \<open>2^62\<close>, and their \<open>int64\<close> sum wraps: the total handed to the notifier is
  \<open>-2^63 = -9223372036854775808\<close>, not \<open>2^63\<close>.
\<close>

theorem main_go_total_wraps:
  "Month \<lparr>Month = ''2025-01'', RX = 0, TX = 0\<rparr> =
     Format_2006_01 (now (example_world 2025 1 4611686018427387904 4611686018427387904 True)) \<and>
   readNetworkBytes
     (proc_net_dev (example_world 2025 1 4611686018427387904 4611686018427387904 True))
     (Interface example_config) = Inr (4611686018427387904, 4611686018427387904) \<and>
   RX \<lparr>Month = ''2025-01'', RX = 0, TX = 0\<rparr> \<le> 4611686018427387904 \<and>
   TX \<lparr>Month = ''2025-01'', RX = 0, TX = 0\<rparr> \<le> 4611686018427387904 \<and>
   taken (main_go (example_world 2025 1 4611686018427387904 4611686018427387904 True)
       (Stored \<lparr>Month = ''2025-01'', RX = 0, TX = 0\<rparr>)) =
     Some (Report 4611686018427387904 4611686018427387904 (- 9223372036854775808)) \<and>
   sent (main_go (example_world 2025 1 4611686018427387904 4611686018427387904 True)
       (Stored \<lparr>Month = ''2025-01'', RX = 0, TX = 0\<rparr>)) =
     [\<lparr>interfaceName = ''eth0'', rxValue = ''4096.00 PB'', txValue = ''4096.00 PB'',
       totalValue = ''-9223372036854775808.00 B'',
       webhookURL = ''https://discord.example/api/webhooks/1'', botName = ''traffic''\<rparr>]"
  by (simp add: main_go_defs example_defs example_counters_big
        main_go_example_notifications [unfolded example_config_def])

end
